theory Spec2Isabelle
  imports Complex_Main "HOL-Library.Char_ord" "HOL-Library.List_Lexorder"
begin

section \<open>US Trade Monitor: the data reconciliation pipeline of Task_1.py\<close>

text \<open>
  The script fetches two tables from the Census Bureau, merges them with pandas, cleans the
  country names and left-joins the result onto a static tariff table. The pandas, requests
  and Streamlit calls are modelled by what they do on the data that reaches them:
  a DataFrame is a list of rows, a missing value (NaN, None) is \<open>None\<close>, an exception is
  the \<open>Inl\<close> side of a sum. Amounts are exact rationals: the rounding of the IEEE doubles
  that pandas computes with is not part of the model. Strings are lists of 8-bit
  characters and case mapping is that of the ASCII letters, which is what Python's
  \<open>str.title\<close> does on ASCII text; characters outside ASCII are left as they are.
\<close>

subsection \<open>Country names: \<open>str.title\<close> and the \<open>name_fixes\<close> table (lines 84 to 95)\<close>

definition is_upper :: "char \<Rightarrow> bool" where
  "is_upper c = (65 \<le> (of_char c :: nat) \<and> (of_char c :: nat) \<le> 90)"

definition is_lower :: "char \<Rightarrow> bool" where
  "is_lower c = (97 \<le> (of_char c :: nat) \<and> (of_char c :: nat) \<le> 122)"

definition is_cased :: "char \<Rightarrow> bool" where
  "is_cased c = (is_upper c \<or> is_lower c)"

definition to_lower :: "char \<Rightarrow> char" where
  "to_lower c = (if is_upper c then char_of ((of_char c :: nat) + 32) else c)"

definition to_upper :: "char \<Rightarrow> char" where
  "to_upper c = (if is_lower c then char_of ((of_char c :: nat) - 32) else c)"

text \<open>
  CPython's title-casing walks the string once and remembers whether the previous
  character was cased: a character after a cased one is lower-cased, any other is
  title-cased (upper-cased, for ASCII).
\<close>

fun title_from :: "bool \<Rightarrow> string \<Rightarrow> string" where
  "title_from previous_is_cased [] = []"
| "title_from previous_is_cased (c # cs) =
     (if previous_is_cased then to_lower c else to_upper c) # title_from (is_cased c) cs"

definition str_title :: "string \<Rightarrow> string" where
  "str_title s = title_from False s"

definition name_fixes :: "(string \<times> string) list" where
  "name_fixes =
     [(''Korea, South'', ''South Korea''),
      (''United Kingdom'', ''United Kingdom''),
      (''China'', ''China''),
      (''Russian Federation'', ''Russia''),
      (''Vietnam'', ''Vietnam''),
      (''Germany'', ''Germany'')]"

text \<open>\<open>Series.replace\<close> with a dict: a value equal to a key becomes that key's value.\<close>

definition replace_fixes :: "string \<Rightarrow> string" where
  "replace_fixes s = (case map_of name_fixes s of Some v \<Rightarrow> v | None \<Rightarrow> s)"

definition normalize :: "string \<Rightarrow> string" where
  "normalize raw = replace_fixes (str_title raw)"

subsection \<open>The tariff table (lines 103 to 114)\<close>

record tariff_entry =
  Country_Name :: string
  Tariff_Rate :: rat
  Category :: string
  ISO_ALPHA_3 :: string

definition tariff_names :: "string list" where
  "tariff_names = [''Canada'', ''Mexico'', ''China'', ''Germany'', ''France'',
     ''United Kingdom'', ''India'', ''Japan'', ''South Korea'', ''Brazil'', ''Vietnam'',
     ''Russia'', ''Australia'']"

definition tariff_rates :: "rat list" where
  "tariff_rates = [0, 0, 193 / 10, 24 / 10, 26 / 10, 25 / 10, 32 / 10, 0, 0, 35 / 10,
     28 / 10, 35, 0]"

definition tariff_categories :: "string list" where
  "tariff_categories = [''FTA Partner'', ''FTA Partner'', ''Trade War'', ''Normal Trade'',
     ''Normal Trade'', ''Normal Trade'', ''Normal Trade'', ''FTA Partner'', ''FTA Partner'',
     ''Normal Trade'', ''Normal Trade'', ''Sanctioned'', ''FTA Partner'']"

definition tariff_iso :: "string list" where
  "tariff_iso = [''CAN'', ''MEX'', ''CHN'', ''DEU'', ''FRA'', ''GBR'', ''IND'', ''JPN'',
     ''KOR'', ''BRA'', ''VNM'', ''RUS'', ''AUS'']"

text \<open>\<open>pd.DataFrame(data)\<close> on a dict of four columns of equal length: row i takes the
  i-th element of each column.\<close>

definition get_tariff_data :: "unit \<Rightarrow> tariff_entry list" where
  "get_tariff_data u =
     map (\<lambda>(n, r, c, i). \<lparr>Country_Name = n, Tariff_Rate = r, Category = c, ISO_ALPHA_3 = i\<rparr>)
       (zip tariff_names (zip tariff_rates (zip tariff_categories tariff_iso)))"

definition tariff_categories_allowed :: "string list" where
  "tariff_categories_allowed = [''FTA Partner'', ''Normal Trade'', ''Trade War'', ''Sanctioned'']"

definition three_upper :: "string \<Rightarrow> bool" where
  "three_upper s = (length s = 3 \<and> list_all is_upper s)"

subsection \<open>The two requests and their tables (lines 53 to 64)\<close>

text \<open>
  A cell of a Census table is a JSON string or null. A response body is no JSON at all, a
  JSON value that is not an array, or a table: an array of rows of cells whose first row
  is the header. The exceptions of the \<open>try\<close> block are kept by their cause; the handler at
  line 99 treats them all alike.
\<close>

type_synonym cell = "string option"

datatype json = Non_Array | Table "cell list list"

datatype response = No_Response | Response nat "json option"

datatype fetch_error =
    Network_Failure | Bad_Status | Malformed_Payload | Missing_Column | Ambiguous_Column
  | Unparseable_Value | No_String_Names

definition thenE :: "fetch_error + 'a \<Rightarrow> ('a \<Rightarrow> fetch_error + 'b) \<Rightarrow> fetch_error + 'b" where
  "thenE m f = (case m of Inl e \<Rightarrow> Inl e | Inr x \<Rightarrow> f x)"

text \<open>\<open>requests.get\<close>, \<open>raise_for_status\<close> (which raises on a status from 400 to 599) and
  \<open>.json()\<close>.\<close>

definition get_json :: "response \<Rightarrow> fetch_error + json" where
  "get_json r =
     (case r of
        No_Response \<Rightarrow> Inl Network_Failure
      | Response status b \<Rightarrow>
          if 400 \<le> status \<and> status < 600 then Inl Bad_Status
          else (case b of None \<Rightarrow> Inl Malformed_Payload | Some j \<Rightarrow> Inr j))"

record data_frame =
  columns :: "cell list"
  index_rows :: "cell list list"

definition pad_row :: "nat \<Rightarrow> cell list \<Rightarrow> cell list" where
  "pad_row w r = r @ replicate (w - length r) None"

text \<open>
  \<open>pd.DataFrame(rows, columns=header)\<close> on a list of lists: no rows give an empty frame
  with the header's columns; otherwise the rows are padded with None to the longest one,
  and a width other than the header's raises.
\<close>

definition DataFrame :: "cell list list \<Rightarrow> cell list \<Rightarrow> fetch_error + data_frame" where
  "DataFrame data header =
     (if data = [] then Inr \<lparr>columns = header, index_rows = []\<rparr>
      else let w = fold max (map length data) 0
           in if w \<noteq> length header then Inl Malformed_Payload
              else Inr \<lparr>columns = header, index_rows = map (pad_row w) data\<rparr>)"

text \<open>Lines 58 and 64: \<open>pd.DataFrame(data[1:], columns=data[0])\<close>.\<close>

definition frame_of_json :: "json \<Rightarrow> fetch_error + data_frame" where
  "frame_of_json j =
     (case j of
        Non_Array \<Rightarrow> Inl Malformed_Payload
      | Table [] \<Rightarrow> Inl Malformed_Payload
      | Table (header # data) \<Rightarrow> DataFrame data header)"

definition positions :: "cell list \<Rightarrow> string \<Rightarrow> nat list" where
  "positions cols name = filter (\<lambda>i. cols ! i = Some name) [0..<length cols]"

text \<open>\<open>df[name]\<close> used as one Series: the label must be there, and only once.\<close>

definition series :: "data_frame \<Rightarrow> string \<Rightarrow> fetch_error + cell list" where
  "series df name =
     (case positions (columns df) name of
        [] \<Rightarrow> Inl Missing_Column
      | [i] \<Rightarrow> Inr (map (\<lambda>r. r ! i) (index_rows df))
      | _ \<Rightarrow> Inl Ambiguous_Column)"

subsection \<open>Numbers (lines 68 and 69)\<close>

text \<open>
  How \<open>pd.to_numeric\<close> reads one string is a parameter \<open>p\<close> of the model:
  \<open>p s = None\<close> when pandas cannot parse \<open>s\<close> and raises, \<open>Some None\<close> when it reads
  NaN, \<open>Some (Some q)\<close> when it reads the number \<open>q\<close>. A null cell is NaN.
\<close>

type_synonym parser = "string \<Rightarrow> rat option option"

definition numeric_cell :: "parser \<Rightarrow> cell \<Rightarrow> fetch_error + rat option" where
  "numeric_cell p c =
     (case c of
        None \<Rightarrow> Inr None
      | Some s \<Rightarrow> (case p s of None \<Rightarrow> Inl Unparseable_Value | Some v \<Rightarrow> Inr v))"

fun to_numeric :: "parser \<Rightarrow> cell list \<Rightarrow> fetch_error + rat option list" where
  "to_numeric p [] = Inr []"
| "to_numeric p (c # cs) =
     thenE (numeric_cell p c) (\<lambda>v. thenE (to_numeric p cs) (\<lambda>vs. Inr (v # vs)))"

definition billions :: "rat option list \<Rightarrow> rat option list" where
  "billions vs = map (map_option (\<lambda>v. v / 1000000000)) vs"

text \<open>Line 68 or 69: the value column of one frame, in billions.\<close>

definition value_column :: "parser \<Rightarrow> data_frame \<Rightarrow> string \<Rightarrow> fetch_error + rat option list" where
  "value_column p df name =
     thenE (series df name) (\<lambda>cells. thenE (to_numeric p cells) (\<lambda>vs. Inr (billions vs)))"

text \<open>A parser of plain decimal digit strings, to run the model on concrete tables.\<close>

definition digit_value :: "char \<Rightarrow> int" where
  "digit_value c = (of_char c :: int) - 48"

definition is_digit :: "char \<Rightarrow> bool" where
  "is_digit c = (48 \<le> (of_char c :: nat) \<and> (of_char c :: nat) \<le> 57)"

definition parse_digits :: parser where
  "parse_digits s =
     (if s \<noteq> [] \<and> list_all is_digit s
      then Some (Some (of_int (foldl (\<lambda>n c. 10 * n + digit_value c) 0 s)))
      else None)"

subsection \<open>The outer merge on the country code (lines 72 to 78)\<close>

text \<open>
  The left frame is \<open>df_exp[['CTY_CODE', 'CTY_NAME', 'Exports']]\<close>, the right one
  \<open>df_imp[['CTY_CODE', 'Imports']]\<close>. An outer merge takes the keys of both frames in
  sorted order (null keys last, and null keys match each other); for each key it pairs
  every left row with every right row of that key, and a row with no partner gets NaN in
  the other frame's columns.
\<close>

type_synonym export_row = "cell \<times> cell \<times> rat option"
type_synonym import_row = "cell \<times> rat option"

record merged_row =
  m_CTY_CODE :: cell
  m_CTY_NAME :: cell
  m_Exports :: "rat option"
  m_Imports :: "rat option"

definition merge_keys :: "cell list \<Rightarrow> cell list" where
  "merge_keys ks =
     map Some (sort (remdups (concat (map (\<lambda>k. case k of None \<Rightarrow> [] | Some s \<Rightarrow> [s]) ks))))
     @ (if None \<in> set ks then [None] else [])"

definition rows_of_key :: "cell \<Rightarrow> export_row list \<Rightarrow> import_row list \<Rightarrow> merged_row list" where
  "rows_of_key k left right =
     (let ls = filter (\<lambda>l. fst l = k) left; rs = filter (\<lambda>r. fst r = k) right
      in if rs = [] then
           map (\<lambda>(c, n, e). \<lparr>m_CTY_CODE = k, m_CTY_NAME = n, m_Exports = e, m_Imports = None\<rparr>) ls
         else if ls = [] then
           map (\<lambda>(c, i). \<lparr>m_CTY_CODE = k, m_CTY_NAME = None, m_Exports = None, m_Imports = i\<rparr>) rs
         else
           concat (map (\<lambda>(c, n, e).
             map (\<lambda>(c', i). \<lparr>m_CTY_CODE = k, m_CTY_NAME = n, m_Exports = e, m_Imports = i\<rparr>) rs) ls))"

definition outer_merge :: "export_row list \<Rightarrow> import_row list \<Rightarrow> merged_row list" where
  "outer_merge left right =
     concat (map (\<lambda>k. rows_of_key k left right) (merge_keys (map fst left @ map fst right)))"

subsection \<open>Zero fill, balance and display name (lines 78 to 95)\<close>

text \<open>
  \<open>fillna(0)\<close> writes the integer 0 into every missing cell, of a text column too. Text
  columns are object columns holding Python strings, as pandas 1 and 2 build them from a
  list of lists; the field \<open>Trade_Country_Name\<close> is the trade frame's column
  \<open>Country Name\<close>.
\<close>

datatype pyobj = Str string | Num rat

record trade_row =
  CTY_CODE :: pyobj
  CTY_NAME :: pyobj
  Exports :: rat
  Imports :: rat
  US_Trade_Balance :: rat
  Trade_Country_Name :: "string option"

definition fillna_obj :: "cell \<Rightarrow> pyobj" where
  "fillna_obj c = (case c of None \<Rightarrow> Num 0 | Some s \<Rightarrow> Str s)"

definition fillna_num :: "rat option \<Rightarrow> rat" where
  "fillna_num v = (case v of None \<Rightarrow> 0 | Some q \<Rightarrow> q)"

text \<open>
  The \<open>.str\<close> accessor of an object column raises when the column has values and none of
  them is a string; on a mixed column its methods give NaN for each value that is not a
  string, and \<open>replace\<close> leaves NaN alone.
\<close>

fun is_Str :: "pyobj \<Rightarrow> bool" where
  "is_Str (Str s) = True"
| "is_Str (Num q) = False"

definition str_accessor_ok :: "pyobj list \<Rightarrow> bool" where
  "str_accessor_ok names = (names = [] \<or> list_ex is_Str names)"

fun display_name :: "pyobj \<Rightarrow> string option" where
  "display_name (Str s) = Some (normalize s)"
| "display_name (Num q) = None"

definition reconciled_row :: "merged_row \<Rightarrow> trade_row" where
  "reconciled_row m =
     \<lparr>CTY_CODE = fillna_obj (m_CTY_CODE m),
      CTY_NAME = fillna_obj (m_CTY_NAME m),
      Exports = fillna_num (m_Exports m),
      Imports = fillna_num (m_Imports m),
      US_Trade_Balance = fillna_num (m_Exports m) - fillna_num (m_Imports m),
      Trade_Country_Name = display_name (fillna_obj (m_CTY_NAME m))\<rparr>"

definition reconcile :: "merged_row list \<Rightarrow> fetch_error + trade_row list" where
  "reconcile ms =
     (if str_accessor_ok (map (\<lambda>m. fillna_obj (m_CTY_NAME m)) ms)
      then Inr (map reconciled_row ms)
      else Inl No_String_Names)"

subsection \<open>The fetch function (lines 23 to 101)\<close>

text \<open>
  The world the function runs in: the calendar year, and what each endpoint answers to a
  request for a year.
\<close>

record world =
  current_year :: int
  exports_api :: "int \<Rightarrow> response"
  imports_api :: "int \<Rightarrow> response"

definition has_label :: "data_frame \<Rightarrow> string \<Rightarrow> bool" where
  "has_label df name = (positions (columns df) name \<noteq> [])"

definition label_repeated :: "data_frame \<Rightarrow> string \<Rightarrow> bool" where
  "label_repeated df name = (1 < length (positions (columns df) name))"

text \<open>Lines 55 to 58, and 61 to 64 with the other endpoint.\<close>

definition fetch_frame :: "response \<Rightarrow> fetch_error + data_frame" where
  "fetch_frame r = thenE (get_json r) frame_of_json"

text \<open>
  The \<open>try\<close> block in the order of the source. The column selections of line 72 raise on a
  missing label; a label that occurs twice makes the merge or a later line raise.
\<close>

definition try_block :: "parser \<Rightarrow> world \<Rightarrow> fetch_error + trade_row list" where
  "try_block p w =
     (let target_year = current_year w - 1 in
      thenE (fetch_frame (exports_api w target_year)) (\<lambda>df_exp.
      thenE (fetch_frame (imports_api w target_year)) (\<lambda>df_imp.
      thenE (value_column p df_exp ''ALL_VAL_YR'') (\<lambda>exports.
      thenE (value_column p df_imp ''GEN_VAL_YR'') (\<lambda>imports.
        if \<not> has_label df_exp ''CTY_CODE'' \<or> \<not> has_label df_exp ''CTY_NAME''
           \<or> \<not> has_label df_imp ''CTY_CODE''
        then Inl Missing_Column
        else if label_repeated df_exp ''Exports'' \<or> label_repeated df_imp ''Imports''
        then Inl Ambiguous_Column
        else
      thenE (series df_exp ''CTY_CODE'') (\<lambda>exp_codes.
      thenE (series df_imp ''CTY_CODE'') (\<lambda>imp_codes.
      thenE (series df_exp ''CTY_NAME'') (\<lambda>exp_names.
        reconcile (outer_merge (zip exp_codes (zip exp_names exports))
                               (zip imp_codes imports))))))))))"

datatype trade_frame = Empty_DataFrame | Trade_Frame "trade_row list"

datatype fetch_message = St_Error fetch_error

text \<open>Lines 53 to 101: any exception is reported with \<open>st.error\<close> and an empty DataFrame
  (one with no columns) is returned.\<close>

definition get_census_trade_data :: "parser \<Rightarrow> world \<Rightarrow> trade_frame \<times> fetch_message list" where
  "get_census_trade_data p w =
     (case try_block p w of
        Inl e \<Rightarrow> (Empty_DataFrame, [St_Error e])
      | Inr df_merged \<Rightarrow> (Trade_Frame df_merged, []))"

text \<open>The number of \<open>requests.get\<close> calls of one run: the second request is reached when
  lines 55 to 58 raised nothing.\<close>

definition network_requests :: "world \<Rightarrow> nat" where
  "network_requests w =
     (case fetch_frame (exports_api w (current_year w - 1)) of Inl e \<Rightarrow> 1 | Inr df_exp \<Rightarrow> 2)"

subsection \<open>The left join onto the tariff table (lines 130 to 135)\<close>

record joined_row = tariff_entry +
  j_CTY_CODE :: "pyobj option"
  j_CTY_NAME :: "pyobj option"
  j_Exports :: rat
  j_Imports :: rat
  j_US_Trade_Balance :: rat

text \<open>
  \<open>pd.merge(df_tariff, df_trade, on="Country Name", how="left")\<close>: the tariff rows in
  their order, each paired with every trade row of the same country name in the trade
  frame's order, or with nothing when there is none. A trade row whose name is NaN
  matches no tariff row.
\<close>

definition matches :: "tariff_entry \<Rightarrow> trade_row list \<Rightarrow> trade_row list" where
  "matches t df_trade = filter (\<lambda>r. Trade_Country_Name r = Some (Country_Name t)) df_trade"

definition left_merge :: "tariff_entry list \<Rightarrow> trade_row list \<Rightarrow> (tariff_entry \<times> trade_row option) list" where
  "left_merge df_tariff df_trade =
     concat (map (\<lambda>t. if matches t df_trade = [] then [(t, None)]
                       else map (\<lambda>r. (t, Some r)) (matches t df_trade)) df_tariff)"

text \<open>Lines 133 to 135: the three \<open>fillna(0)\<close> on the balance, the exports and the imports.\<close>

fun fill_trade :: "tariff_entry \<times> trade_row option \<Rightarrow> joined_row" where
  "fill_trade (t, None) =
     \<lparr>Country_Name = Country_Name t, Tariff_Rate = Tariff_Rate t, Category = Category t,
      ISO_ALPHA_3 = ISO_ALPHA_3 t, j_CTY_CODE = None, j_CTY_NAME = None,
      j_Exports = 0, j_Imports = 0, j_US_Trade_Balance = 0\<rparr>"
| "fill_trade (t, Some r) =
     \<lparr>Country_Name = Country_Name t, Tariff_Rate = Tariff_Rate t, Category = Category t,
      ISO_ALPHA_3 = ISO_ALPHA_3 t, j_CTY_CODE = Some (CTY_CODE r), j_CTY_NAME = Some (CTY_NAME r),
      j_Exports = Exports r, j_Imports = Imports r, j_US_Trade_Balance = US_Trade_Balance r\<rparr>"

definition policy_join :: "tariff_entry list \<Rightarrow> trade_row list \<Rightarrow> joined_row list" where
  "policy_join df_tariff df_trade = map fill_trade (left_merge df_tariff df_trade)"

subsection \<open>The script (lines 120 to 188)\<close>

datatype ui_event =
    Fetch_Message fetch_message
  | St_Plotly_Chart "joined_row list"
  | St_Dataframe "joined_row list"
  | St_Warning

text \<open>\<open>df.empty\<close>: a frame with no columns or no rows.\<close>

fun df_empty :: "trade_frame \<Rightarrow> bool" where
  "df_empty Empty_DataFrame = True"
| "df_empty (Trade_Frame rs) = (rs = [])"

fun render :: "trade_frame \<Rightarrow> ui_event list" where
  "render (Trade_Frame df_trade) =
     (if \<not> df_empty (Trade_Frame df_trade)
      then (let merged_df = policy_join (get_tariff_data ()) df_trade
            in [St_Plotly_Chart merged_df, St_Dataframe merged_df])
      else [St_Warning])"
| "render Empty_DataFrame = [St_Warning]"

definition main :: "parser \<Rightarrow> world \<Rightarrow> ui_event list" where
  "main p w =
     (case get_census_trade_data p w of
        (df_trade, shown) \<Rightarrow> map Fetch_Message shown @ render df_trade)"

subsection \<open>The cache of the fetch function (line 23)\<close>

text \<open>
  \<open>@st.cache_data(ttl=3600)\<close> keeps the value a call returned under a key made of the
  function and its arguments; \<open>get_census_trade_data\<close> takes no argument, so there is one
  entry. An entry is served while fewer than 3600 seconds have passed since it was
  stored. The clock is a number of seconds given to each call.
\<close>

type_synonym cache = "(nat \<times> (trade_frame \<times> fetch_message list)) option"

record cached_call =
  returned :: "trade_frame \<times> fetch_message list"
  cache_after :: cache
  requests_issued :: nat

definition ttl :: nat where
  "ttl = 3600"

definition run_and_store :: "parser \<Rightarrow> nat \<Rightarrow> world \<Rightarrow> cached_call" where
  "run_and_store p now w =
     \<lparr>returned = get_census_trade_data p w,
      cache_after = Some (now, get_census_trade_data p w),
      requests_issued = network_requests w\<rparr>"

definition cached_get_census_trade_data :: "parser \<Rightarrow> cache \<Rightarrow> nat \<Rightarrow> world \<Rightarrow> cached_call" where
  "cached_get_census_trade_data p c now w =
     (case c of
        None \<Rightarrow> run_and_store p now w
      | Some (stored_at, v) \<Rightarrow>
          if now < stored_at + ttl
          then \<lparr>returned = v, cache_after = c, requests_issued = 0\<rparr>
          else run_and_store p now w)"

subsection \<open>Concrete tables\<close>

text \<open>Two small responses in the shape the Census API serves, the imports table with its
  columns in another order, and the trade frame the fetch function makes of them.\<close>

definition census_exports_example :: json where
  "census_exports_example = Table
     [[Some ''CTY_CODE'', Some ''CTY_NAME'', Some ''ALL_VAL_YR'', Some ''time''],
      [Some ''5700'', Some ''CHINA'', Some ''150000000000'', Some ''2024''],
      [Some ''1220'', Some ''CANADA'', Some ''350000000000'', Some ''2024'']]"

definition census_imports_example :: json where
  "census_imports_example = Table
     [[Some ''GEN_VAL_YR'', Some ''CTY_CODE'', Some ''CTY_NAME'', Some ''time''],
      [Some ''450000000000'', Some ''5700'', Some ''CHINA'', Some ''2024''],
      [Some ''500000000000'', Some ''2010'', Some ''MEXICO'', Some ''2024'']]"

definition example_world :: world where
  "example_world =
     \<lparr>current_year = 2025,
      exports_api = (\<lambda>year. Response 200 (Some census_exports_example)),
      imports_api = (\<lambda>year. Response 200 (Some census_imports_example))\<rparr>"

definition example_trade :: "trade_row list" where
  "example_trade =
     [\<lparr>CTY_CODE = Str ''1220'', CTY_NAME = Str ''CANADA'', Exports = 350, Imports = 0,
       US_Trade_Balance = 350, Trade_Country_Name = Some ''Canada''\<rparr>,
      \<lparr>CTY_CODE = Str ''2010'', CTY_NAME = Num 0, Exports = 0, Imports = 500,
       US_Trade_Balance = - 500, Trade_Country_Name = None\<rparr>,
      \<lparr>CTY_CODE = Str ''5700'', CTY_NAME = Str ''CHINA'', Exports = 150, Imports = 450,
       US_Trade_Balance = - 300, Trade_Country_Name = Some ''China''\<rparr>]"

text \<open>An exports table that lists China twice, as a table with one row per month does.\<close>

definition census_exports_repeated :: json where
  "census_exports_repeated = Table
     [[Some ''CTY_CODE'', Some ''CTY_NAME'', Some ''ALL_VAL_YR'', Some ''time''],
      [Some ''5700'', Some ''CHINA'', Some ''100000000000'', Some ''2024-01''],
      [Some ''5700'', Some ''CHINA'', Some ''50000000000'', Some ''2024-02'']]"

definition repeated_world :: world where
  "repeated_world =
     \<lparr>current_year = 2025,
      exports_api = (\<lambda>year. Response 200 (Some census_exports_repeated)),
      imports_api = (\<lambda>year. Response 200 (Some census_imports_example))\<rparr>"

definition repeated_trade :: "trade_row list" where
  "repeated_trade =
     [\<lparr>CTY_CODE = Str ''2010'', CTY_NAME = Num 0, Exports = 0, Imports = 500,
       US_Trade_Balance = - 500, Trade_Country_Name = None\<rparr>,
      \<lparr>CTY_CODE = Str ''5700'', CTY_NAME = Str ''CHINA'', Exports = 100, Imports = 450,
       US_Trade_Balance = - 350, Trade_Country_Name = Some ''China''\<rparr>,
      \<lparr>CTY_CODE = Str ''5700'', CTY_NAME = Str ''CHINA'', Exports = 50, Imports = 450,
       US_Trade_Balance = - 400, Trade_Country_Name = Some ''China''\<rparr>]"

text \<open>Endpoints that answer a request for 2024 or earlier with one table and a later
  year with another, and the same world on either side of a new year.\<close>

definition api_by_year :: "json \<Rightarrow> json \<Rightarrow> int \<Rightarrow> response" where
  "api_by_year old new year = (if year \<le> 2024 then Response 200 (Some old) else Response 200 (Some new))"

definition year_end_world :: world where
  "year_end_world =
     \<lparr>current_year = 2025,
      exports_api = api_by_year census_exports_example census_exports_repeated,
      imports_api = api_by_year census_imports_example census_imports_example\<rparr>"

definition new_year_world :: world where
  "new_year_world = year_end_world\<lparr>current_year := 2026\<rparr>"

text \<open>A world whose exports endpoint is down.\<close>

definition outage_world :: world where
  "outage_world = example_world\<lparr>exports_api := (\<lambda>year. Response 503 None)\<rparr>"

text \<open>
  The responses the fetch cannot use: no response at all, an error status, a body that is
  not JSON, JSON that is not an array, or an array with no header row.
\<close>

definition unusable :: "response \<Rightarrow> bool" where
  "unusable r =
     (case r of
        No_Response \<Rightarrow> True
      | Response status b \<Rightarrow>
          (400 \<le> status \<and> status < 600) \<or> b = None \<or> b = Some Non_Array \<or> b = Some (Table []))"

subsection \<open>Tables with their columns in another order\<close>









section \<open>Properties\<close>

subsection \<open>Case mapping and name normalisation\<close>
















subsection \<open>The tariff table\<close>

text \<open>
  Claim C10. The tariff table is a constant: every call returns the same 13 rows, the
  country names are pairwise distinct, every rate is at least 0, every category is one of
  FTA Partner, Normal Trade, Trade War and Sanctioned, and every ISO code is three
  upper-case letters.
\<close>

theorem tariff_catalog:
  "get_tariff_data u = get_tariff_data u'
   \<and> length (get_tariff_data u) = 13
   \<and> distinct (map Country_Name (get_tariff_data u))
   \<and> (\<forall>t\<in>set (get_tariff_data u).
         0 \<le> Tariff_Rate t \<and> Category t \<in> set tariff_categories_allowed
         \<and> three_upper (ISO_ALPHA_3 t))"
proof -
  have a: "length (get_tariff_data ()) = 13" by code_simp
  have b: "distinct (map Country_Name (get_tariff_data ()))" by code_simp
  have c: "\<forall>t\<in>set (get_tariff_data ()).
         0 \<le> Tariff_Rate t \<and> Category t \<in> set tariff_categories_allowed
         \<and> three_upper (ISO_ALPHA_3 t)" by code_simp
  show ?thesis using a b c by simp
qed

theorem tariff_catalog_witness:
  "get_tariff_data () ! 2 \<in> set (get_tariff_data ())
   \<and> 0 \<le> Tariff_Rate (get_tariff_data () ! 2)
   \<and> Category (get_tariff_data () ! 2) \<in> set tariff_categories_allowed
   \<and> three_upper (ISO_ALPHA_3 (get_tariff_data () ! 2))"
proof -
  have m: "get_tariff_data () ! 2 \<in> set (get_tariff_data ())"
    using tariff_catalog [of "()" "()"] by simp
  show ?thesis using m tariff_catalog [of "()" "()"] by blast
qed

subsection \<open>The left join\<close>

lemma thenE_Inr: "thenE m f = Inr y \<Longrightarrow> \<exists>x. m = Inr x \<and> f x = Inr y"
  by (cases m) (simp_all add: thenE_def)

lemma reconcile_Inr: "reconcile ms = Inr R \<Longrightarrow> R = map reconciled_row ms"
  by (simp add: reconcile_def split: if_splits)

lemma try_block_reconciled:
  assumes "try_block p w = Inr R"
  shows "\<exists>ms. R = map reconciled_row ms"
proof -
  from assms obtain ms where "reconcile ms = Inr R"
    unfolding try_block_def Let_def
    by (auto dest!: thenE_Inr split: if_splits)
  then show ?thesis using reconcile_Inr by blast
qed

lemma reconciled_row_balance:
  "US_Trade_Balance (reconciled_row m) = Exports (reconciled_row m) - Imports (reconciled_row m)"
  by (simp add: reconciled_row_def)

lemma fill_trade_truncate: "tariff_entry.truncate (fill_trade x) = fst x"
  by (cases x rule: fill_trade.cases) (simp_all add: tariff_entry.truncate_def)

lemma rows_of_entry_fst:
  "map fst (if ms = [] then [(t, None)] else map (\<lambda>r. (t, Some r)) ms) =
     replicate (max 1 (length ms)) t"
  by (cases ms) (simp_all add: comp_def map_replicate_const max_def)

lemma left_merge_fst:
  "map fst (left_merge T R) = concat (map (\<lambda>t. replicate (max 1 (length (matches t R))) t) T)"
  by (induction T) (simp_all add: left_merge_def rows_of_entry_fst del: map_eq_conv)

lemma policy_join_tariff_part:
  "map tariff_entry.truncate (policy_join T R) =
     concat (map (\<lambda>t. replicate (max 1 (length (matches t R))) t) T)"
proof -
  have "map tariff_entry.truncate (policy_join T R) = map fst (left_merge T R)"
    by (simp add: policy_join_def fill_trade_truncate comp_def)
  then show ?thesis by (simp add: left_merge_fst)
qed

lemma concat_singletons:
  "(\<forall>t\<in>set T. f t = 1) \<Longrightarrow> concat (map (\<lambda>t. replicate (f t) t) T) = T"
  by (induction T) auto

lemma policy_join_in_set:
  "j \<in> set (policy_join T R) \<Longrightarrow>
   \<exists>t\<in>set T. (matches t R = [] \<and> j = fill_trade (t, None))
              \<or> (\<exists>r\<in>set (matches t R). j = fill_trade (t, Some r))"
  by (auto simp: policy_join_def left_merge_def simp del: fill_trade.simps split: if_splits)

lemma unmatched_in_policy_join:
  "t \<in> set T \<Longrightarrow> matches t R = [] \<Longrightarrow> fill_trade (t, None) \<in> set (policy_join T R)"
  by (auto simp: policy_join_def left_merge_def simp del: fill_trade.simps intro!: image_eqI [where x = "(t, None)"] bexI [where x = t])

lemma Country_Name_fill_trade: "Country_Name (fill_trade (t, x)) = Country_Name t"
  by (cases x) simp_all

lemma matches_iff: "r \<in> set (matches t R) \<longleftrightarrow> r \<in> set R \<and> Trade_Country_Name r = Some (Country_Name t)"
  by (simp add: matches_def)

lemma matches_Nil_iff: "matches t R = [] \<longleftrightarrow> (\<forall>r\<in>set R. Trade_Country_Name r \<noteq> Some (Country_Name t))"
  by (simp add: matches_def filter_empty_conv)

text \<open>
  Claim C1, as amended. The left join lists the tariff entries in their input order, each
  one once for every trade record of its country name and once when there is none. So
  when no tariff entry matches more than one trade record, the output has exactly one
  row per tariff entry, in the order of the tariff entries, whatever trade data there is.
\<close>

theorem left_join_rows:
  "map tariff_entry.truncate (policy_join df_tariff df_trade) =
     concat (map (\<lambda>t. replicate (max 1 (length (matches t df_trade))) t) df_tariff)
   \<and> ((\<forall>t\<in>set df_tariff. length (matches t df_trade) \<le> 1) \<longrightarrow>
        length (policy_join df_tariff df_trade) = length df_tariff
        \<and> map tariff_entry.truncate (policy_join df_tariff df_trade) = df_tariff)"
proof (intro conjI impI)
  show rows: "map tariff_entry.truncate (policy_join df_tariff df_trade) =
     concat (map (\<lambda>t. replicate (max 1 (length (matches t df_trade))) t) df_tariff)"
    by (rule policy_join_tariff_part)
  assume once: "\<forall>t\<in>set df_tariff. length (matches t df_trade) \<le> 1"
  then have "\<forall>t\<in>set df_tariff. max 1 (length (matches t df_trade)) = 1"
    by (auto simp: max_def)
  then show same: "map tariff_entry.truncate (policy_join df_tariff df_trade) = df_tariff"
    using rows concat_singletons [of df_tariff "\<lambda>t. max 1 (length (matches t df_trade))"] by simp
  show "length (policy_join df_tariff df_trade) = length df_tariff"
    using same length_map [of tariff_entry.truncate "policy_join df_tariff df_trade"] by simp
qed

theorem left_join_rows_witness:
  "length (policy_join (get_tariff_data ()) example_trade) = length (get_tariff_data ())
   \<and> map tariff_entry.truncate (policy_join (get_tariff_data ()) example_trade)
       = get_tariff_data ()"
proof -
  have once: "\<forall>t\<in>set (get_tariff_data ()). length (matches t example_trade) \<le> 1"
    by code_simp
  show ?thesis
    using left_join_rows [of "get_tariff_data ()" example_trade] once by blast
qed

text \<open>
  The claim as stated fails when two trade records carry the same country name: with an
  exports table that lists China twice, the fetched frame has two rows named China and
  the join of the 13 tariff entries has 14 rows.
\<close>

theorem left_join_one_row_counterexample:
  "try_block parse_digits repeated_world = Inr repeated_trade
   \<and> length (policy_join (get_tariff_data ()) repeated_trade) = 14
   \<and> length (get_tariff_data ()) = 13"
proof -
  have a: "try_block parse_digits repeated_world = Inr repeated_trade" by code_simp
  have b: "length (policy_join (get_tariff_data ()) repeated_trade) = 14" by code_simp
  have c: "length (get_tariff_data ()) = 13" by code_simp
  show ?thesis using a b c by blast
qed

text \<open>
  Claim C6. A tariff entry that no trade record matches yields a joined row, and every
  joined row whose country has no trade record has exports, imports and balance 0 and
  the rate, category and ISO code of a tariff entry (fields of the tariff entry itself,
  which cannot be missing). Joining the single entry for China with no trade records
  gives the single row for China with 0 exports, imports and balance.
\<close>

theorem unmatched_rows_zero:
  "(\<forall>t\<in>set df_tariff. matches t df_trade = [] \<longrightarrow>
      fill_trade (t, None) \<in> set (policy_join df_tariff df_trade))
   \<and> (\<forall>j\<in>set (policy_join df_tariff df_trade).
        (\<forall>r\<in>set df_trade. Trade_Country_Name r \<noteq> Some (Country_Name j)) \<longrightarrow>
        j_Exports j = 0 \<and> j_Imports j = 0 \<and> j_US_Trade_Balance j = 0
        \<and> tariff_entry.truncate j \<in> set df_tariff)
   \<and> policy_join
        [\<lparr>Country_Name = ''China'', Tariff_Rate = 193 / 10, Category = ''Trade War'',
          ISO_ALPHA_3 = ''CHN''\<rparr>] []
       = [\<lparr>Country_Name = ''China'', Tariff_Rate = 193 / 10, Category = ''Trade War'',
           ISO_ALPHA_3 = ''CHN'', j_CTY_CODE = None, j_CTY_NAME = None,
           j_Exports = 0, j_Imports = 0, j_US_Trade_Balance = 0\<rparr>]"
proof (intro conjI ballI impI)
  fix t assume "t \<in> set df_tariff" "matches t df_trade = []"
  then show "fill_trade (t, None) \<in> set (policy_join df_tariff df_trade)"
    by (rule unmatched_in_policy_join)
next
  fix j
  assume j: "j \<in> set (policy_join df_tariff df_trade)"
    and none: "\<forall>r\<in>set df_trade. Trade_Country_Name r \<noteq> Some (Country_Name j)"
  from policy_join_in_set [OF j] obtain t where t: "t \<in> set df_tariff"
    and cases: "(matches t df_trade = [] \<and> j = fill_trade (t, None))
              \<or> (\<exists>r\<in>set (matches t df_trade). j = fill_trade (t, Some r))"
    by blast
  have "\<not> (\<exists>r\<in>set (matches t df_trade). j = fill_trade (t, Some r))"
    using none by (auto simp: matches_iff)
  with cases have eq: "j = fill_trade (t, None)" by blast
  show "j_Exports j = 0" "j_Imports j = 0" "j_US_Trade_Balance j = 0"
    by (simp_all add: eq)
  show "tariff_entry.truncate j \<in> set df_tariff"
    using t by (simp only: eq fill_trade_truncate fst_conv)
next
  show "policy_join
        [\<lparr>Country_Name = ''China'', Tariff_Rate = 193 / 10, Category = ''Trade War'',
          ISO_ALPHA_3 = ''CHN''\<rparr>] []
       = [\<lparr>Country_Name = ''China'', Tariff_Rate = 193 / 10, Category = ''Trade War'',
           ISO_ALPHA_3 = ''CHN'', j_CTY_CODE = None, j_CTY_NAME = None,
           j_Exports = 0, j_Imports = 0, j_US_Trade_Balance = 0\<rparr>]"
    by (simp add: policy_join_def left_merge_def matches_def)
qed

theorem unmatched_rows_zero_witness:
  "matches (get_tariff_data () ! 3) example_trade = []
   \<and> fill_trade (get_tariff_data () ! 3, None) \<in> set (policy_join (get_tariff_data ()) example_trade)
   \<and> j_Exports (fill_trade (get_tariff_data () ! 3, None)) = 0
   \<and> j_Imports (fill_trade (get_tariff_data () ! 3, None)) = 0
   \<and> j_US_Trade_Balance (fill_trade (get_tariff_data () ! 3, None)) = 0
   \<and> Country_Name (fill_trade (get_tariff_data () ! 3, None)) = ''Germany''
   \<and> tariff_entry.truncate (fill_trade (get_tariff_data () ! 3, None)) \<in> set (get_tariff_data ())"
proof -
  have t: "get_tariff_data () ! 3 \<in> set (get_tariff_data ())" by code_simp
  have m: "matches (get_tariff_data () ! 3) example_trade = []" by code_simp
  have n: "Country_Name (fill_trade (get_tariff_data () ! 3, None)) = ''Germany''" by code_simp
  have u: "\<forall>r\<in>set example_trade.
             Trade_Country_Name r \<noteq> Some (Country_Name (fill_trade (get_tariff_data () ! 3, None)))"
    by code_simp
  show ?thesis
    using unmatched_rows_zero [of "get_tariff_data ()" example_trade] t m n u by blast
qed

text \<open>
  Claim C7. In every trade record the fetch returns, and in every row of its join with any
  tariff table, the balance is the exports minus the imports; a row filled with zeros has
  balance 0 = 0 - 0.
\<close>

theorem balance_exact:
  assumes "try_block p w = Inr df_trade"
  shows "(\<forall>r\<in>set df_trade. US_Trade_Balance r = Exports r - Imports r)
       \<and> (\<forall>j\<in>set (policy_join df_tariff df_trade).
             j_US_Trade_Balance j = j_Exports j - j_Imports j)"
proof -
  from try_block_reconciled [OF assms] obtain ms where ms: "df_trade = map reconciled_row ms"
    by blast
  have trade: "\<forall>r\<in>set df_trade. US_Trade_Balance r = Exports r - Imports r"
    by (auto simp: ms reconciled_row_balance)
  have "j_US_Trade_Balance j = j_Exports j - j_Imports j"
    if "j \<in> set (policy_join df_tariff df_trade)" for j
  proof -
    from policy_join_in_set [OF that] obtain t where
      "j = fill_trade (t, None) \<or> (\<exists>r\<in>set (matches t df_trade). j = fill_trade (t, Some r))"
      by blast
    then show ?thesis
      using trade by (auto simp: matches_iff)
  qed
  with trade show ?thesis by blast
qed


theorem balance_exact_witness:
  "try_block parse_digits example_world = Inr example_trade
   \<and> US_Trade_Balance (example_trade ! 2) = Exports (example_trade ! 2) - Imports (example_trade ! 2)
   \<and> j_US_Trade_Balance (policy_join (get_tariff_data ()) example_trade ! 2)
       = j_Exports (policy_join (get_tariff_data ()) example_trade ! 2)
         - j_Imports (policy_join (get_tariff_data ()) example_trade ! 2)"
proof -
  have f: "try_block parse_digits example_world = Inr example_trade" by code_simp
  have r: "example_trade ! 2 \<in> set example_trade" by code_simp
  have j: "policy_join (get_tariff_data ()) example_trade ! 2
             \<in> set (policy_join (get_tariff_data ()) example_trade)" by code_simp
  show ?thesis
    using balance_exact [OF f, of "get_tariff_data ()"] f r j by blast
qed

subsection \<open>Failure of the fetch\<close>

lemma thenE_Inl: "m = Inl e \<Longrightarrow> thenE m f = Inl e"
  by (simp add: thenE_def)

lemma try_block_exports_fail:
  "fetch_frame (exports_api w (current_year w - 1)) = Inl e \<Longrightarrow> try_block p w = Inl e"
  by (simp add: try_block_def thenE_def)

lemma try_block_imports_fail:
  "fetch_frame (imports_api w (current_year w - 1)) = Inl e \<Longrightarrow> \<exists>e'. try_block p w = Inl e'"
  by (cases "fetch_frame (exports_api w (current_year w - 1))") (simp_all add: try_block_def thenE_def)

lemma main_on_failure:
  "try_block p w = Inl e \<Longrightarrow> main p w = [Fetch_Message (St_Error e), St_Warning]"
  by (simp add: main_def get_census_trade_data_def)

lemma unusable_fetch_frame: "unusable r \<Longrightarrow> \<exists>e. fetch_frame r = Inl e"
  by (auto simp: unusable_def fetch_frame_def get_json_def frame_of_json_def thenE_def
      split: response.splits option.splits)

text \<open>
  Claim C5. When the \<open>try\<close> block raises, the fetch function reports the error and returns
  the empty frame, and the script shows the message and the warning and nothing else: the
  join is not run, no chart and no table are drawn, and the script ends normally. A
  network failure, an error status and a malformed payload, on either endpoint, each make
  the \<open>try\<close> block raise.
\<close>

theorem fetch_failure_degrades:
  "(try_block p w = Inl e \<longrightarrow>
      get_census_trade_data p w = (Empty_DataFrame, [St_Error e])
      \<and> df_empty (fst (get_census_trade_data p w))
      \<and> main p w = [Fetch_Message (St_Error e), St_Warning])
   \<and> (unusable (exports_api w (current_year w - 1)) \<or> unusable (imports_api w (current_year w - 1))
        \<longrightarrow> (\<exists>e'. try_block p w = Inl e'))"
proof (intro conjI impI)
  assume f: "try_block p w = Inl e"
  show "get_census_trade_data p w = (Empty_DataFrame, [St_Error e])"
    by (simp add: get_census_trade_data_def f)
  then show "df_empty (fst (get_census_trade_data p w))" by simp
  show "main p w = [Fetch_Message (St_Error e), St_Warning]"
    using f by (rule main_on_failure)
next
  assume "unusable (exports_api w (current_year w - 1)) \<or> unusable (imports_api w (current_year w - 1))"
  then show "\<exists>e'. try_block p w = Inl e'"
    using unusable_fetch_frame try_block_exports_fail try_block_imports_fail by blast
qed

theorem fetch_failure_degrades_witness:
  "unusable (exports_api outage_world (current_year outage_world - 1))
   \<and> try_block parse_digits outage_world = Inl Bad_Status
   \<and> get_census_trade_data parse_digits outage_world = (Empty_DataFrame, [St_Error Bad_Status])
   \<and> main parse_digits outage_world = [Fetch_Message (St_Error Bad_Status), St_Warning]"
proof -
  have u: "unusable (exports_api outage_world (current_year outage_world - 1))" by code_simp
  have f: "try_block parse_digits outage_world = Inl Bad_Status" by code_simp
  show ?thesis
    using fetch_failure_degrades [of parse_digits outage_world Bad_Status] u f by blast
qed

subsection \<open>The cache\<close>

lemma network_requests_pos: "1 \<le> network_requests w"
  by (simp add: network_requests_def split: sum.splits)

text \<open>
  Claim C9, as amended. The cache holds one entry, under a key that does not contain the
  year. A call made fewer than 3600 seconds after the entry was stored returns the stored
  value, issues no network request and leaves the cache as it is, whatever the year and
  the endpoints are by then. A call made 3600 seconds or more after, or with nothing
  stored, runs the function, which issues at least one request, returns its fresh result
  and stores it with the time of the call.
\<close>

theorem cache_single_entry:
  "(now < stored_at + 3600 \<longrightarrow>
      cached_get_census_trade_data p (Some (stored_at, v)) now w
        = \<lparr>returned = v, cache_after = Some (stored_at, v), requests_issued = 0\<rparr>)
   \<and> (stored_at + 3600 \<le> now \<longrightarrow>
      cached_get_census_trade_data p (Some (stored_at, v)) now w = run_and_store p now w)
   \<and> cached_get_census_trade_data p None now w = run_and_store p now w
   \<and> returned (run_and_store p now w) = get_census_trade_data p w
   \<and> cache_after (run_and_store p now w) = Some (now, get_census_trade_data p w)
   \<and> 1 \<le> requests_issued (run_and_store p now w)"
  using network_requests_pos [of w]
  by (simp add: cached_get_census_trade_data_def run_and_store_def ttl_def)

theorem cache_single_entry_witness:
  "cached_get_census_trade_data parse_digits
       (Some (0, get_census_trade_data parse_digits example_world)) 3599 repeated_world
     = \<lparr>returned = get_census_trade_data parse_digits example_world,
        cache_after = Some (0, get_census_trade_data parse_digits example_world),
        requests_issued = 0\<rparr>
   \<and> cached_get_census_trade_data parse_digits
       (Some (0, get_census_trade_data parse_digits example_world)) 3600 repeated_world
     = run_and_store parse_digits 3600 repeated_world
   \<and> 1 \<le> requests_issued (run_and_store parse_digits 3600 repeated_world)"
proof -
  have h: "(3599::nat) < 0 + 3600" by simp
  have m: "(0::nat) + 3600 \<le> 3600" by simp
  show ?thesis
    using h m
      cache_single_entry [of 3599 0 parse_digits "get_census_trade_data parse_digits example_world"
        repeated_world]
      cache_single_entry [of 3600 0 parse_digits "get_census_trade_data parse_digits example_world"
        repeated_world]
    by blast
qed

text \<open>
  The cache is not keyed by year: an entry stored in 2025 (with the data of 2024) is
  served ten seconds later in 2026, with no request, although a run of the function in
  2026 asks for the data of 2025 and returns another frame.
\<close>


theorem cache_year_counterexample:
  "current_year new_year_world \<noteq> current_year year_end_world
   \<and> requests_issued
        (cached_get_census_trade_data parse_digits
           (cache_after (cached_get_census_trade_data parse_digits None 0 year_end_world))
           10 new_year_world) = 0
   \<and> returned
        (cached_get_census_trade_data parse_digits
           (cache_after (cached_get_census_trade_data parse_digits None 0 year_end_world))
           10 new_year_world) = (Trade_Frame example_trade, [])
   \<and> get_census_trade_data parse_digits new_year_world = (Trade_Frame repeated_trade, [])"
proof -
  have a: "current_year new_year_world \<noteq> current_year year_end_world" by code_simp
  have b: "get_census_trade_data parse_digits year_end_world = (Trade_Frame example_trade, [])"
    by code_simp
  have c: "get_census_trade_data parse_digits new_year_world = (Trade_Frame repeated_trade, [])"
    by code_simp
  show ?thesis using a b c
    by (simp add: cached_get_census_trade_data_def run_and_store_def ttl_def)
qed


subsection \<open>The outer merge\<close>














subsection \<open>Header-driven parsing\<close>






lemma positions_absent: "Some name \<notin> set cols \<Longrightarrow> positions cols name = []"
  unfolding positions_def filter_empty_conv by (metis atLeastLessThan_iff nth_mem set_upt)

lemma positions_present: "positions cols name \<noteq> [] \<Longrightarrow> Some name \<in> set cols"
  using positions_absent by blast



lemma permutation_length:
  assumes "distinct perm" "set perm = {0..<n}"
  shows "length perm = n"
  using assms distinct_card [of perm] by simp



















end
